theory Spec2Isabelle
  imports Complex_Main "HOL-Library.Word"
begin

unbundle bit_operations_syntax

section \<open>Binary telemetry decoder (utils/mqtt\_protobuf\_decoder.py)\<close>

text \<open>
  A Python \<open>bytes\<close> object is a list of 8-bit words; indexing it yields an unbounded
  Python integer in the range 0..255, modelled as a natural number obtained with \<open>unat\<close>.
\<close>

type_synonym byte = "8 word"
type_synonym bytes = "byte list"

text \<open>The exceptions that the modelled code can raise; both derive from \<open>Exception\<close>.\<close>

datatype py_exn = StructError | TypeError

fun is_Exception :: "py_exn \<Rightarrow> bool" where
  "is_Exception StructError = True"
| "is_Exception TypeError = True"

subsection \<open>struct.unpack\<close>

text \<open>
  \<open>struct.unpack(fmt, buf)\<close> raises \<open>struct.error\<close> unless \<open>len(buf)\<close> is exactly the
  size of the format. All formats used are little-endian (\<open><\<close>) without padding.
\<close>

definition le_u16 :: "byte \<Rightarrow> byte \<Rightarrow> nat" where
  "le_u16 b0 b1 = unat b0 + 256 * unat b1"

definition le_u32 :: "byte \<Rightarrow> byte \<Rightarrow> byte \<Rightarrow> byte \<Rightarrow> nat" where
  "le_u32 b0 b1 b2 b3 = unat b0 + 256 * unat b1 + 65536 * unat b2 + 16777216 * unat b3"

definition unpack_L :: "bytes \<Rightarrow> py_exn + nat" where
  "unpack_L b = (if length b = 4 then Inr (le_u32 (b ! 0) (b ! 1) (b ! 2) (b ! 3))
                 else Inl StructError)"

definition unpack_BBB :: "bytes \<Rightarrow> py_exn + (nat \<times> nat \<times> nat)" where
  "unpack_BBB b = (if length b = 3 then Inr (unat (b ! 0), unat (b ! 1), unat (b ! 2))
                   else Inl StructError)"

definition unpack_BBH :: "bytes \<Rightarrow> py_exn + (nat \<times> nat \<times> nat)" where
  "unpack_BBH b = (if length b = 4 then Inr (unat (b ! 0), unat (b ! 1), le_u16 (b ! 2) (b ! 3))
                   else Inl StructError)"

definition unpack_LHHBBH :: "bytes \<Rightarrow> py_exn + (nat \<times> nat \<times> nat \<times> nat \<times> nat \<times> nat)" where
  "unpack_LHHBBH b =
     (if length b = 12
      then Inr (le_u32 (b ! 0) (b ! 1) (b ! 2) (b ! 3), le_u16 (b ! 4) (b ! 5),
                le_u16 (b ! 6) (b ! 7), unat (b ! 8), unat (b ! 9), le_u16 (b ! 10) (b ! 11))
      else Inl StructError)"

subsection \<open>String formatting\<close>

definition digit_char :: "nat \<Rightarrow> char" where
  "digit_char d = ''0123456789'' ! d"

function string_of_nat :: "nat \<Rightarrow> string" where
  "string_of_nat n = (if n < 10 then [digit_char n]
                      else string_of_nat (n div 10) @ [digit_char (n mod 10)])"
  by pat_completeness auto
termination
  by (relation "measure id") auto

declare string_of_nat.simps [simp del]

definition hex_upper :: "nat \<Rightarrow> char" where
  "hex_upper d = ''0123456789ABCDEF'' ! d"

definition hex_lower :: "nat \<Rightarrow> char" where
  "hex_lower d = ''0123456789abcdef'' ! d"

text \<open>The format \<open>{n:02X}\<close> for a value below 256.\<close>

definition fmt_02X :: "nat \<Rightarrow> string" where
  "fmt_02X n = [hex_upper (n div 16), hex_upper (n mod 16)]"

text \<open>\<open>bytes.hex()\<close>: two lower-case digits per byte.\<close>

definition bytes_hex :: "bytes \<Rightarrow> string" where
  "bytes_hex b = concat (map (\<lambda>x. [hex_lower (unat x div 16), hex_lower (unat x mod 16)]) b)"

subsection \<open>Name lookup tables\<close>

text \<open>\<open>d.get(k, default)\<close> on a literal dictionary with integer keys.\<close>

definition dict_get :: "(nat \<times> string) list \<Rightarrow> nat \<Rightarrow> string \<Rightarrow> string" where
  "dict_get d k dflt = (case map_of d k of Some v \<Rightarrow> v | None \<Rightarrow> dflt)"

definition message_type_names :: "(nat \<times> string) list" where
  "message_type_names =
     [(0x10, ''DIGITAL_INPUT''), (0x11, ''DIGITAL_OUTPUT''), (0x12, ''RELAY_EVENT''),
      (0x13, ''PRESSURE''), (0x14, ''SYSTEM_ERROR''), (0x15, ''SAFETY_EVENT''),
      (0x16, ''SYSTEM_STATUS''), (0x17, ''SEQUENCE_EVENT'')]"

definition get_type_name :: "nat \<Rightarrow> string" where
  "get_type_name msg_type =
     dict_get message_type_names msg_type (''UNKNOWN_0x'' @ fmt_02X msg_type)"

definition get_input_type_name :: "nat \<Rightarrow> string" where
  "get_input_type_name input_type =
     dict_get [(0, ''UNKNOWN''), (1, ''MANUAL_EXTEND''), (2, ''MANUAL_RETRACT''),
               (3, ''SAFETY_CLEAR''), (4, ''SEQUENCE_START''), (5, ''LIMIT_EXTEND''),
               (6, ''LIMIT_RETRACT''), (7, ''SPLITTER_OPERATOR''), (8, ''EMERGENCY_STOP'')]
       input_type (''UNKNOWN_'' @ string_of_nat input_type)"

definition get_output_type_name :: "nat \<Rightarrow> string" where
  "get_output_type_name output_type =
     dict_get [(0, ''UNKNOWN''), (1, ''MILL_LAMP''), (2, ''STATUS_LED'')]
       output_type (''UNKNOWN_'' @ string_of_nat output_type)"

definition get_mill_lamp_pattern_name :: "nat \<Rightarrow> string" where
  "get_mill_lamp_pattern_name pattern =
     dict_get [(0, ''OFF''), (1, ''SOLID''), (2, ''SLOW_BLINK''), (3, ''FAST_BLINK'')]
       pattern (''UNKNOWN_'' @ string_of_nat pattern)"

definition get_relay_type_name :: "nat \<Rightarrow> string" where
  "get_relay_type_name relay_type =
     dict_get [(0, ''UNKNOWN''), (1, ''HYDRAULIC_EXTEND''), (2, ''HYDRAULIC_RETRACT''),
               (7, ''OPERATOR_BUZZER''), (8, ''ENGINE_STOP''), (9, ''POWER_CONTROL'')]
       relay_type (''RESERVED_'' @ string_of_nat relay_type)"

definition get_pressure_type_name :: "nat \<Rightarrow> string" where
  "get_pressure_type_name pressure_type =
     dict_get [(0, ''UNKNOWN''), (1, ''SYSTEM_PRESSURE''), (2, ''TANK_PRESSURE''),
               (3, ''LOAD_PRESSURE''), (4, ''AUXILIARY'')]
       pressure_type (''UNKNOWN_'' @ string_of_nat pressure_type)"

definition get_error_code_name :: "nat \<Rightarrow> string" where
  "get_error_code_name error_code =
     dict_get [(0x01, ''EEPROM_CRC''), (0x02, ''EEPROM_SAVE''), (0x04, ''SENSOR_FAULT''),
               (0x08, ''NETWORK_PERSISTENT''), (0x10, ''CONFIG_INVALID''),
               (0x20, ''MEMORY_LOW''), (0x40, ''HARDWARE_FAULT''), (0x80, ''SEQUENCE_TIMEOUT'')]
       error_code (''UNKNOWN_0x'' @ fmt_02X error_code)"

definition get_severity_name :: "nat \<Rightarrow> string" where
  "get_severity_name severity =
     dict_get [(0, ''INFO''), (1, ''WARNING''), (2, ''ERROR''), (3, ''CRITICAL'')]
       severity (''UNKNOWN_'' @ string_of_nat severity)"

definition get_safety_event_name :: "nat \<Rightarrow> string" where
  "get_safety_event_name event_type =
     dict_get [(0, ''SAFETY_ACTIVATED''), (1, ''SAFETY_CLEARED''),
               (2, ''EMERGENCY_STOP_ACTIVATED''), (3, ''EMERGENCY_STOP_CLEARED''),
               (4, ''LIMIT_SWITCH_TRIGGERED''), (5, ''PRESSURE_SAFETY'')]
       event_type (''UNKNOWN_'' @ string_of_nat event_type)"

definition get_sequence_state_name :: "nat \<Rightarrow> string" where
  "get_sequence_state_name st =
     dict_get [(0, ''IDLE''), (1, ''EXTENDING''), (2, ''EXTENDED''), (3, ''RETRACTING''),
               (4, ''RETRACTED''), (5, ''PAUSED''), (6, ''ERROR_STATE'')]
       st (''UNKNOWN_'' @ string_of_nat st)"

definition get_sequence_event_name :: "nat \<Rightarrow> string" where
  "get_sequence_event_name event_type =
     dict_get [(0, ''SEQUENCE_STARTED''), (1, ''SEQUENCE_STEP_COMPLETE''),
               (2, ''SEQUENCE_COMPLETE''), (3, ''SEQUENCE_PAUSED''), (4, ''SEQUENCE_RESUMED''),
               (5, ''SEQUENCE_ABORTED''), (6, ''SEQUENCE_TIMEOUT'')]
       event_type (''UNKNOWN_'' @ string_of_nat event_type)"

subsection \<open>Decoded payloads\<close>

text \<open>
  Each handler returns a dictionary; the dictionaries are modelled as records, one per
  message type, with the key names prefixed by the message type. Values that the source
  computes in floating point (\<open>pressure_psi\<close>, \<open>uptime_seconds\<close>, \<open>uptime_minutes\<close>,
  \<open>elapsed_time_sec\<close>, \<open>timestamp_sec\<close>) are not part of the model; for the pressure
  reading the record keeps the 32 bits that the source reinterprets as a float.
\<close>

record digital_input =
  di_pin :: nat
  di_state :: bool
  di_state_name :: string
  di_is_debounced :: bool
  di_input_type :: nat
  di_input_type_name :: string
  di_debounce_time_ms :: nat

record digital_output =
  do_pin :: nat
  do_state :: bool
  do_state_name :: string
  do_output_type :: nat
  do_output_type_name :: string
  do_mill_lamp_pattern :: nat
  do_mill_lamp_pattern_name :: string

record relay_event =
  re_relay_number :: nat
  re_relay_name :: string
  re_state :: bool
  re_state_name :: string
  re_is_manual :: bool
  re_operation_mode :: string
  re_success :: bool
  re_success_name :: string
  re_relay_type :: nat
  re_relay_type_name :: string

record pressure =
  pr_sensor_pin :: nat
  pr_sensor_name :: string
  pr_is_fault :: bool
  pr_fault_status :: string
  pr_pressure_type :: nat
  pr_pressure_type_name :: string
  pr_raw_adc_value :: nat
  pr_pressure_bits :: nat

record system_error =
  er_error_code :: nat
  er_error_code_hex :: string
  er_error_name :: string
  er_acknowledged :: bool
  er_active :: bool
  er_severity :: nat
  er_severity_name :: string
  er_description :: string

record safety_event =
  sf_event_type :: nat
  sf_event_type_name :: string
  sf_is_active :: bool
  sf_status :: string

record system_status =
  ss_uptime_ms :: nat
  ss_loop_frequency_hz :: nat
  ss_free_memory_bytes :: nat
  ss_active_error_count :: nat
  ss_safety_active :: bool
  ss_estop_active :: bool
  ss_sequence_state :: nat
  ss_sequence_state_name :: string
  ss_mill_lamp_pattern :: nat
  ss_mill_lamp_pattern_name :: string

record sequence_event =
  sq_event_type :: nat
  sq_event_type_name :: string
  sq_step_number :: nat
  sq_elapsed_time_ms :: nat

datatype payload =
    DigitalInput digital_input
  | DigitalOutput digital_output
  | RelayEvent relay_event
  | Pressure pressure
  | SystemError system_error
  | SafetyEvent safety_event
  | SystemStatus system_status
  | SequenceEvent sequence_event

subsection \<open>Payload handlers\<close>

text \<open>
  Each handler returns \<open>None\<close> when the payload is shorter than its minimum and otherwise
  unpacks it; unpacking the whole payload raises \<open>struct.error\<close> when the payload is longer
  than the format.
\<close>

definition decode_digital_input :: "bytes \<Rightarrow> py_exn + payload option" where
  "decode_digital_input p =
     (if length p < 4 then Inr None
      else case unpack_BBH p of
        Inl e \<Rightarrow> Inl e
      | Inr (pin, flags, debounce_time) \<Rightarrow>
          Inr (Some (DigitalInput
            \<lparr>di_pin = pin,
             di_state = (flags AND 0x01 \<noteq> 0),
             di_state_name = (if flags AND 0x01 \<noteq> 0 then ''ACTIVE'' else ''INACTIVE''),
             di_is_debounced = (flags AND 0x02 \<noteq> 0),
             di_input_type = drop_bit 2 flags AND 0x3F,
             di_input_type_name = get_input_type_name (drop_bit 2 flags AND 0x3F),
             di_debounce_time_ms = debounce_time\<rparr>)))"

definition decode_digital_output :: "bytes \<Rightarrow> py_exn + payload option" where
  "decode_digital_output p =
     (if length p < 3 then Inr None
      else case unpack_BBB p of
        Inl e \<Rightarrow> Inl e
      | Inr (pin, flags, reserved) \<Rightarrow>
          Inr (Some (DigitalOutput
            \<lparr>do_pin = pin,
             do_state = (flags AND 0x01 \<noteq> 0),
             do_state_name = (if flags AND 0x01 \<noteq> 0 then ''HIGH'' else ''LOW''),
             do_output_type = drop_bit 1 flags AND 0x07,
             do_output_type_name = get_output_type_name (drop_bit 1 flags AND 0x07),
             do_mill_lamp_pattern = drop_bit 4 flags AND 0x0F,
             do_mill_lamp_pattern_name =
               get_mill_lamp_pattern_name (drop_bit 4 flags AND 0x0F)\<rparr>)))"

definition decode_relay_event :: "bytes \<Rightarrow> py_exn + payload option" where
  "decode_relay_event p =
     (if length p < 3 then Inr None
      else case unpack_BBB p of
        Inl e \<Rightarrow> Inl e
      | Inr (relay_number, flags, reserved) \<Rightarrow>
          Inr (Some (RelayEvent
            \<lparr>re_relay_number = relay_number,
             re_relay_name = ''R'' @ string_of_nat relay_number,
             re_state = (flags AND 0x01 \<noteq> 0),
             re_state_name = (if flags AND 0x01 \<noteq> 0 then ''ON'' else ''OFF''),
             re_is_manual = (flags AND 0x02 \<noteq> 0),
             re_operation_mode = (if flags AND 0x02 \<noteq> 0 then ''MANUAL'' else ''AUTO''),
             re_success = (flags AND 0x04 \<noteq> 0),
             re_success_name = (if flags AND 0x04 \<noteq> 0 then ''SUCCESS'' else ''FAILED''),
             re_relay_type = drop_bit 3 flags AND 0x1F,
             re_relay_type_name = get_relay_type_name (drop_bit 3 flags AND 0x1F)\<rparr>)))"

definition decode_pressure :: "bytes \<Rightarrow> py_exn + payload option" where
  "decode_pressure p =
     (if length p < 8 then Inr None
      else case unpack_BBH (take 4 p) of
        Inl e \<Rightarrow> Inl e
      | Inr (sensor_pin, flags, raw_value) \<Rightarrow>
         (case unpack_L (take 4 (drop 4 p)) of
            Inl e \<Rightarrow> Inl e
          | Inr pressure_bits \<Rightarrow>
              Inr (Some (Pressure
                \<lparr>pr_sensor_pin = sensor_pin,
                 pr_sensor_name = ''A'' @ string_of_nat sensor_pin,
                 pr_is_fault = (flags AND 0x01 \<noteq> 0),
                 pr_fault_status = (if flags AND 0x01 \<noteq> 0 then ''FAULT'' else ''OK''),
                 pr_pressure_type = drop_bit 1 flags AND 0x7F,
                 pr_pressure_type_name = get_pressure_type_name (drop_bit 1 flags AND 0x7F),
                 pr_raw_adc_value = raw_value,
                 pr_pressure_bits = pressure_bits\<rparr>))))"

text \<open>
  \<open>desc_bytes.decode('ascii', errors='ignore').rstrip('\x00')\<close>: bytes above 127 are
  dropped, then trailing NUL characters are removed.
\<close>

definition decode_ascii_ignore :: "bytes \<Rightarrow> string" where
  "decode_ascii_ignore b = map (\<lambda>x. char_of (unat x)) (filter (\<lambda>x. unat x < 128) b)"

definition rstrip_nul :: "string \<Rightarrow> string" where
  "rstrip_nul s = rev (dropWhile (\<lambda>c. c = CHR 0x00) (rev s))"

definition decode_system_error :: "bytes \<Rightarrow> py_exn + payload option" where
  "decode_system_error p =
     (if length p < 3 then Inr None
      else case unpack_BBB (take 3 p) of
        Inl e \<Rightarrow> Inl e
      | Inr (error_code, flags, desc_length) \<Rightarrow>
          (let description =
                 (if desc_length > 0 \<and> length p > 3
                  then rstrip_nul (decode_ascii_ignore
                         (take (min desc_length (length p - 3)) (drop 3 p)))
                  else [])
           in Inr (Some (SystemError
                \<lparr>er_error_code = error_code,
                 er_error_code_hex = ''0x'' @ fmt_02X error_code,
                 er_error_name = get_error_code_name error_code,
                 er_acknowledged = (flags AND 0x01 \<noteq> 0),
                 er_active = (flags AND 0x02 \<noteq> 0),
                 er_severity = drop_bit 2 flags AND 0x03,
                 er_severity_name = get_severity_name (drop_bit 2 flags AND 0x03),
                 er_description = description\<rparr>))))"

definition decode_safety_event :: "bytes \<Rightarrow> py_exn + payload option" where
  "decode_safety_event p =
     (if length p < 3 then Inr None
      else case unpack_BBB p of
        Inl e \<Rightarrow> Inl e
      | Inr (event_type, flags, reserved) \<Rightarrow>
          Inr (Some (SafetyEvent
            \<lparr>sf_event_type = event_type,
             sf_event_type_name = get_safety_event_name event_type,
             sf_is_active = (flags AND 0x01 \<noteq> 0),
             sf_status = (if flags AND 0x01 \<noteq> 0 then ''ACTIVE'' else ''INACTIVE'')\<rparr>)))"

definition decode_system_status :: "bytes \<Rightarrow> py_exn + payload option" where
  "decode_system_status p =
     (if length p < 12 then Inr None
      else case unpack_LHHBBH p of
        Inl e \<Rightarrow> Inl e
      | Inr (uptime_ms, loop_freq_hz, free_memory, active_errors, flags, reserved) \<Rightarrow>
          Inr (Some (SystemStatus
            \<lparr>ss_uptime_ms = uptime_ms,
             ss_loop_frequency_hz = loop_freq_hz,
             ss_free_memory_bytes = free_memory,
             ss_active_error_count = active_errors,
             ss_safety_active = (flags AND 0x01 \<noteq> 0),
             ss_estop_active = (flags AND 0x02 \<noteq> 0),
             ss_sequence_state = drop_bit 2 flags AND 0x0F,
             ss_sequence_state_name = get_sequence_state_name (drop_bit 2 flags AND 0x0F),
             ss_mill_lamp_pattern = drop_bit 6 flags AND 0x03,
             ss_mill_lamp_pattern_name =
               get_mill_lamp_pattern_name (drop_bit 6 flags AND 0x03)\<rparr>)))"

definition decode_sequence_event :: "bytes \<Rightarrow> py_exn + payload option" where
  "decode_sequence_event p =
     (if length p < 4 then Inr None
      else case unpack_BBH p of
        Inl e \<Rightarrow> Inl e
      | Inr (event_type, step_number, elapsed_time_ms) \<Rightarrow>
          Inr (Some (SequenceEvent
            \<lparr>sq_event_type = event_type,
             sq_event_type_name = get_sequence_event_name event_type,
             sq_step_number = step_number,
             sq_elapsed_time_ms = elapsed_time_ms\<rparr>)))"

text \<open>The dispatch dictionary \<open>self.message_handlers\<close> built in \<open>__init__\<close>.\<close>

definition message_handlers :: "nat \<rightharpoonup> (bytes \<Rightarrow> py_exn + payload option)" where
  "message_handlers =
     map_of [(0x10, decode_digital_input), (0x11, decode_digital_output),
             (0x12, decode_relay_event), (0x13, decode_pressure),
             (0x14, decode_system_error), (0x15, decode_safety_event),
             (0x16, decode_system_status), (0x17, decode_sequence_event)]"

subsection \<open>Sequence tracking\<close>

text \<open>
  Lines 74 to 81 of the decoder keep the last sequence number per message type in the
  dictionary \<open>self.last_sequence\<close> and print a warning when the received number is not the
  successor modulo 256. The three paths through that code are named \<open>First\<close> (the type is
  not yet in the dictionary), \<open>Continues\<close> (no warning) and \<open>Gap expected actual\<close> (the
  warning, with the two numbers it prints).
\<close>

datatype seq_report = First | Continues | Gap nat nat

definition check_sequence :: "(nat \<rightharpoonup> nat) \<Rightarrow> nat \<Rightarrow> nat \<Rightarrow> seq_report" where
  "check_sequence last_seq mtype sequence =
     (case last_seq mtype of
        None \<Rightarrow> First
      | Some l \<Rightarrow>
          (let expected_seq = (l + 1) mod 256
           in if sequence \<noteq> expected_seq then Gap expected_seq sequence else Continues))"

definition update_sequence :: "(nat \<rightharpoonup> nat) \<Rightarrow> nat \<Rightarrow> nat \<Rightarrow> (nat \<rightharpoonup> nat)" where
  "update_sequence last_seq mtype sequence = last_seq(mtype \<mapsto> sequence)"

subsection \<open>decode\_message\<close>

text \<open>What the decoder prints, one constructor per \<open>print\<close> statement of \<open>decode_message\<close>.\<close>

datatype log_line =
    ErrTooShort nat
  | ErrSizeMismatch nat nat
  | WarnSequenceGap nat nat nat
  | WarnUnknownType nat
  | ErrDecodeException py_exn

record decoder_state =
  messages_received :: nat
  messages_decoded :: nat
  decode_errors :: nat
  last_sequence :: "nat \<rightharpoonup> nat"

definition init_decoder :: decoder_state where
  "init_decoder = \<lparr>messages_received = 0, messages_decoded = 0, decode_errors = 0,
                    last_sequence = Map.empty\<rparr>"

text \<open>
  The returned dictionary; the keys \<open>size\<close>, \<open>type\<close>, \<open>type_name\<close>, \<open>sequence\<close>,
  \<open>timestamp\<close>, \<open>payload\<close> and \<open>raw_payload_hex\<close> carry the prefix \<open>msg_\<close>.
\<close>

record decoded_message =
  msg_size :: nat
  msg_type :: nat
  msg_type_name :: string
  msg_sequence :: nat
  msg_timestamp :: nat
  msg_payload :: "payload option"
  msg_raw_payload_hex :: string

text \<open>
  The body of the \<open>try\<close> block: the new decoder state, the lines printed, and either the
  exception raised or the value returned (\<open>None\<close> or the dictionary). The state changes
  made before an exception is raised persist.
\<close>

definition decode_message_try ::
  "decoder_state \<Rightarrow> bytes \<Rightarrow> decoder_state \<times> log_line list \<times> (py_exn + decoded_message option)"
where
  "decode_message_try s0 binary_data =
     (let s1 = s0\<lparr>messages_received := messages_received s0 + 1\<rparr> in
      if length binary_data < 7
      then (s1\<lparr>decode_errors := decode_errors s1 + 1\<rparr>,
            [ErrTooShort (length binary_data)], Inr None)
      else
        let size_byte = unat (binary_data ! 0) in
        if size_byte \<noteq> length binary_data
        then (s1\<lparr>decode_errors := decode_errors s1 + 1\<rparr>,
              [ErrSizeMismatch size_byte (length binary_data)], Inr None)
        else
          let mtype = unat (binary_data ! 1);
              sequence = unat (binary_data ! 2)
          in case unpack_L (take 4 (drop 3 binary_data)) of
               Inl e \<Rightarrow> (s1, [], Inl e)
             | Inr timestamp \<Rightarrow>
                 let payload = (if length binary_data > 7 then drop 7 binary_data else []);
                     out1 = (case check_sequence (last_sequence s1) mtype sequence of
                               Gap expected_seq actual \<Rightarrow>
                                 [WarnSequenceGap mtype expected_seq actual]
                             | _ \<Rightarrow> []);
                     s2 = s1\<lparr>last_sequence :=
                               update_sequence (last_sequence s1) mtype sequence\<rparr>;
                     result = (\<lambda>decoded_payload.
                        \<lparr>msg_size = size_byte, msg_type = mtype,
                         msg_type_name = get_type_name mtype, msg_sequence = sequence,
                         msg_timestamp = timestamp, msg_payload = decoded_payload,
                         msg_raw_payload_hex =
                           (if payload \<noteq> [] then bytes_hex payload else [])\<rparr>)
                 in (case message_handlers mtype of
                       Some handler \<Rightarrow>
                         (case handler payload of
                            Inl e \<Rightarrow> (s2, out1, Inl e)
                          | Inr decoded_payload \<Rightarrow>
                              ((if decoded_payload \<noteq> None
                                then s2\<lparr>messages_decoded := messages_decoded s2 + 1\<rparr>
                                else s2),
                               out1, Inr (Some (result decoded_payload))))
                     | None \<Rightarrow>
                         (s2, out1 @ [WarnUnknownType mtype], Inr (Some (result None)))))"

text \<open>
  The whole method: \<open>except Exception\<close> catches every exception derived from \<open>Exception\<close>,
  counts a decode error, prints it and returns \<open>None\<close>; any other exception would propagate
  to the caller (\<open>Inl\<close>).
\<close>

definition decode_message ::
  "decoder_state \<Rightarrow> bytes \<Rightarrow> py_exn + (decoded_message option \<times> decoder_state \<times> log_line list)"
where
  "decode_message s0 binary_data =
     (case decode_message_try s0 binary_data of
        (s, out, Inr r) \<Rightarrow> Inr (r, s, out)
      | (s, out, Inl e) \<Rightarrow>
          if is_Exception e
          then Inr (None, s\<lparr>decode_errors := decode_errors s + 1\<rparr>,
                    out @ [ErrDecodeException e])
          else Inl e)"

text \<open>
  The lines that report an error (printed with the prefix \<open>ERROR:\<close>), as opposed to the
  warnings.
\<close>

fun is_error_line :: "log_line \<Rightarrow> bool" where
  "is_error_line (ErrTooShort n) = True"
| "is_error_line (ErrSizeMismatch e g) = True"
| "is_error_line (ErrDecodeException e) = True"
| "is_error_line (WarnSequenceGap t e g) = False"
| "is_error_line (WarnUnknownType t) = False"


section \<open>Stream verification (utils/verify\_protobuf\_stream.py)\<close>

text \<open>
  \<open>EXPECTED_PAYLOAD_SIZES\<close> maps a message type to an exact payload size or to a
  \<open>range(lo, hi)\<close> of sizes (upper bound excluded).
\<close>

datatype expected_size = Exact nat | Range nat nat

definition VALID_MESSAGE_TYPES :: "(nat \<times> string) list" where
  "VALID_MESSAGE_TYPES =
     [(0x10, ''DIGITAL_INPUT''), (0x11, ''DIGITAL_OUTPUT''), (0x12, ''RELAY_EVENT''),
      (0x13, ''PRESSURE''), (0x14, ''SYSTEM_ERROR''), (0x15, ''SAFETY_EVENT''),
      (0x16, ''SYSTEM_STATUS''), (0x17, ''SEQUENCE_EVENT'')]"

definition EXPECTED_PAYLOAD_SIZES :: "(nat \<times> expected_size) list" where
  "EXPECTED_PAYLOAD_SIZES =
     [(0x10, Exact 4), (0x11, Exact 3), (0x12, Exact 3), (0x13, Exact 8),
      (0x14, Range 3 28), (0x15, Exact 3), (0x16, Exact 12), (0x17, Exact 4)]"

text \<open>
  The messages appended to \<open>result['issues']\<close>, one constructor per message. The
  lookup \<open>EXPECTED_PAYLOAD_SIZES[msg_type]\<close> cannot fail, since it follows the test
  \<open>msg_type not in VALID_MESSAGE_TYPES\<close> and both dictionaries have the same keys.
\<close>

datatype issue =
    TooShort nat
  | SizeMismatch nat nat nat
  | TooLarge nat
  | TooSmall nat
  | InvalidMessageType nat
  | InvalidPayloadSize nat expected_size

record validation =
  valid :: bool
  issues :: "issue list"
  v_msg_type :: "nat option"
  v_msg_size :: "nat option"
  v_sequence_id :: "nat option"
  v_timestamp :: "nat option"
  v_payload_size :: "nat option"

definition validate_message :: "bytes \<Rightarrow> validation" where
  "validate_message data =
     (let result = \<lparr>valid = False, issues = [], v_msg_type = None, v_msg_size = None,
                     v_sequence_id = None, v_timestamp = None, v_payload_size = None\<rparr> in
      if length data < 7 then result\<lparr>issues := [TooShort (length data)]\<rparr>
      else
        let struct_size = unat (data ! 0);
            result = result\<lparr>v_msg_size := Some struct_size\<rparr>;
            expected_length = struct_size + 1 in
        if expected_length \<noteq> length data
        then result\<lparr>issues := [SizeMismatch struct_size expected_length (length data)]\<rparr>
        else if struct_size > 33 then result\<lparr>issues := [TooLarge struct_size]\<rparr>
        else if struct_size < 9 then result\<lparr>issues := [TooSmall struct_size]\<rparr>
        else
          let mtype = unat (data ! 1);
              result = result\<lparr>v_msg_type := Some mtype,
                              v_sequence_id := Some (unat (data ! 2)),
                              v_timestamp :=
                                Some (le_u32 (data ! 3) (data ! 4) (data ! 5) (data ! 6))\<rparr> in
          if map_of VALID_MESSAGE_TYPES mtype = None
          then result\<lparr>issues := [InvalidMessageType mtype]\<rparr>
          else
            let payload_size = struct_size - 6;
                result = result\<lparr>v_payload_size := Some payload_size\<rparr> in
            (case map_of EXPECTED_PAYLOAD_SIZES mtype of
               Some (Range lo hi) \<Rightarrow>
                 if \<not> (lo \<le> payload_size \<and> payload_size < hi)
                 then result\<lparr>issues := [InvalidPayloadSize payload_size (Range lo hi)]\<rparr>
                 else result\<lparr>valid := True\<rparr>
             | Some (Exact n) \<Rightarrow>
                 if payload_size \<noteq> n
                 then result\<lparr>issues := [InvalidPayloadSize payload_size (Exact n)]\<rparr>
                 else result\<lparr>valid := True\<rparr>
             | None \<Rightarrow> result))"

section \<open>Exchange windows\<close>

text \<open>
  The analysis scripts read events back from the telemetry database. An event is a
  dictionary with a \<open>timestamp\<close> (a \<open>datetime\<close>, modelled as a real number of seconds),
  the message type name (key \<open>type\<close>, present in the archived analyzer only) and the
  \<open>payload\<close> dictionary parsed from JSON. \<open>payload.get(k)\<close> is \<open>map_of payload k\<close>.
\<close>

datatype json = JNull | JBool bool | JNum real | JStr string

type_synonym json_dict = "(string \<times> json) list"

record event =
  ev_timestamp :: real
  ev_type :: string
  ev_payload :: json_dict

type_synonym time_window = "real \<times> real"

subsection \<open>Inactivity-timeout identifier (utils/archived/basket\_exchange\_metrics.py)\<close>

text \<open>
  The condition of line 259: a \<open>SPLITTER_OPERATOR\<close> signal whose \<open>state\<close> is the JSON
  value \<open>true\<close>.
\<close>

definition is_active_operator_signal :: "event \<Rightarrow> bool" where
  "is_active_operator_signal e =
     (map_of (ev_payload e) ''input_type_name'' = Some (JStr ''SPLITTER_OPERATOR'') \<and>
      map_of (ev_payload e) ''state'' = Some (JBool True))"

text \<open>The local variables of the loop of \<open>_identify_exchange_windows\<close>.\<close>

record window_scan =
  current_window_start :: "real option"
  last_signal_time :: "real option"
  windows :: "time_window list"

text \<open>
  One iteration of the loop, for the timeout \<open>self.operator_signal_timeout\<close>. Subtracting
  \<open>None\<close> from a \<open>datetime\<close> raises \<open>TypeError\<close>; a \<open>datetime\<close> is always true in a
  condition, so \<open>if current_window_start and last_signal_time\<close> asks whether both are set.
\<close>

definition scan_event :: "real \<Rightarrow> window_scan \<Rightarrow> event \<Rightarrow> py_exn + window_scan" where
  "scan_event operator_signal_timeout st e =
     (let t = ev_timestamp e in
      if is_active_operator_signal e then
        (case current_window_start st of
           None \<Rightarrow> Inr (st\<lparr>current_window_start := Some t, last_signal_time := Some t\<rparr>)
         | Some s \<Rightarrow>
            (case last_signal_time st of
               None \<Rightarrow> Inl TypeError
             | Some l \<Rightarrow>
                 if t - l \<le> operator_signal_timeout
                 then Inr (st\<lparr>last_signal_time := Some t\<rparr>)
                 else Inr \<lparr>current_window_start = Some t, last_signal_time = Some t,
                           windows = windows st @ [(s - 30, l + 120)]\<rparr>))
      else Inr st)"

fun scan_events :: "real \<Rightarrow> window_scan \<Rightarrow> event list \<Rightarrow> py_exn + window_scan" where
  "scan_events operator_signal_timeout st [] = Inr st"
| "scan_events operator_signal_timeout st (e # es) =
     (case scan_event operator_signal_timeout st e of
        Inl x \<Rightarrow> Inl x
      | Inr st' \<Rightarrow> scan_events operator_signal_timeout st' es)"

text \<open>The block after the loop, which closes the final window if one is open.\<close>

definition close_final_window :: "window_scan \<Rightarrow> time_window list" where
  "close_final_window st =
     (case (current_window_start st, last_signal_time st) of
        (Some s, Some l) \<Rightarrow> windows st @ [(s - 30, l + 120)]
      | _ \<Rightarrow> windows st)"

definition identify_exchange_windows :: "real \<Rightarrow> event list \<Rightarrow> py_exn + time_window list" where
  "identify_exchange_windows operator_signal_timeout operator_events =
     (if operator_events = [] then Inr []
      else
        case scan_events operator_signal_timeout
               \<lparr>current_window_start = None, last_signal_time = None, windows = []\<rparr>
               operator_events of
          Inl x \<Rightarrow> Inl x
        | Inr st \<Rightarrow> Inr (close_final_window st))"

text \<open>The default of \<open>self.operator_signal_timeout\<close> set in \<open>__init__\<close>, in seconds.\<close>

definition default_operator_signal_timeout :: real where
  "default_operator_signal_timeout = 60"

text \<open>
  \<open>_classify_exchange\<close> of the archived analyzer returns the exchange type together with
  the confidence.
\<close>

definition analyzer_classify_exchange ::
  "event list \<Rightarrow> event list \<Rightarrow> event list \<Rightarrow> string \<times> real"
where
  "analyzer_classify_exchange operator_signals sequence_events relay_events =
     (let operator_count =
            length (filter (\<lambda>e. map_of (ev_payload e) ''input_type_name''
                                   = Some (JStr ''SPLITTER_OPERATOR'')) operator_signals);
          sequence_count = length sequence_events;
          manual_relay_count = length relay_events;
          confidence = (0.0 :: real);
          exchange_type = ''UNKNOWN'';
          confidence = (if operator_count \<ge> 1 then confidence + 0.5 else confidence);
          (confidence, exchange_type) =
            (if sequence_count > 0 then (confidence + 0.3, ''SEQUENCE'')
             else (confidence, exchange_type));
          (confidence, exchange_type) =
            (if manual_relay_count > 0
             then (confidence + 0.2,
                   if exchange_type = ''SEQUENCE'' then ''MIXED'' else ''MANUAL'')
             else (confidence, exchange_type));
          confidence = (if operator_count \<ge> 2 then confidence + 0.2 else confidence);
          confidence = min confidence 1.0
      in (exchange_type, confidence))"

subsection \<open>Per-press identifier and classifier (utils/basket\_metrics\_dashboard.py)\<close>

definition is_ACTIVE :: "event \<Rightarrow> bool" where
  "is_ACTIVE e = (map_of (ev_payload e) ''state_name'' = Some (JStr ''ACTIVE''))"

fun dashboard_identify_exchange_windows :: "event list \<Rightarrow> time_window list" where
  "dashboard_identify_exchange_windows [] = []"
| "dashboard_identify_exchange_windows (e # es) =
     (if is_ACTIVE e
      then (ev_timestamp e - 10, ev_timestamp e + 20) # dashboard_identify_exchange_windows es
      else dashboard_identify_exchange_windows es)"

definition classify_exchange :: "event list \<Rightarrow> event list \<Rightarrow> event list \<Rightarrow> string" where
  "classify_exchange operator_signals sequence_events relay_events =
     (if sequence_events \<noteq> [] \<and> length sequence_events \<ge> 2
      then (if relay_events \<noteq> [] then ''MIXED'' else ''SEQUENCE'')
      else if relay_events \<noteq> [] then ''MANUAL''
      else ''BUTTON_ONLY'')"

text \<open>The confidence is a Python float; the model computes with real numbers.\<close>

definition calculate_confidence :: "event list \<Rightarrow> event list \<Rightarrow> event list \<Rightarrow> real" where
  "calculate_confidence operator_signals sequence_events relay_events =
     (let confidence = (0.8 :: real);
          active_signals = filter is_ACTIVE operator_signals
      in if active_signals = [] then 0.0
         else
           let confidence = (if length active_signals > 1 then confidence - 0.2 else confidence);
               confidence = (if sequence_events \<noteq> [] then confidence + 0.2 else confidence);
               confidence = (if relay_events \<noteq> [] then confidence + 0.2 else confidence)
           in min 1.0 (max 0.6 confidence))"

text \<open>
  Membership of an event in a window, as tested by \<open>start_time <= e['timestamp'] <= end_time\<close>.
\<close>

definition in_window :: "time_window \<Rightarrow> real \<Rightarrow> bool" where
  "in_window w t = (fst w \<le> t \<and> t \<le> snd w)"

text \<open>Rows of the \<open>monitor_data\<close> table and the detected exchange.\<close>

record monitor_row =
  mr_topic :: string
  mr_value :: "real option"

record basket_exchange =
  start_time :: real
  end_time :: real
  duration_seconds :: real
  operator_signals :: "event list"
  sequence_events :: "event list"
  relay_events :: "event list"
  exchange_type :: string
  confidence :: real
  avg_remote_temp :: "real option"
  min_remote_temp :: "real option"
  max_remote_temp :: "real option"
  fuel_consumption :: "real option"
  avg_pressure :: "real option"
  max_pressure :: "real option"

definition mean :: "real list \<Rightarrow> real" where
  "mean xs = sum_list xs / real (length xs)"

text \<open>
  The list comprehensions \<open>[d['value'] for d in monitor_data if d['topic'] == topic and
  d['value'] is not None]\<close> and \<open>[p for p in pressure_data if p['pressure_psi'] is not
  None and p['pressure_psi'] > 0]\<close>.
\<close>

fun topic_values :: "string \<Rightarrow> monitor_row list \<Rightarrow> real list" where
  "topic_values topic [] = []"
| "topic_values topic (d # ds) =
     (case mr_value d of
        Some v \<Rightarrow> if mr_topic d = topic then v # topic_values topic ds
                  else topic_values topic ds
      | None \<Rightarrow> topic_values topic ds)"

fun positive_values :: "real option list \<Rightarrow> real list" where
  "positive_values [] = []"
| "positive_values (p # ps) =
     (case p of
        Some v \<Rightarrow> if v > 0 then v # positive_values ps else positive_values ps
      | None \<Rightarrow> positive_values ps)"

text \<open>
  \<open>_analyze_exchange_window\<close>. The rows that its four database queries return for the
  window (sequence events, relay events, monitor data and the \<open>pressure_psi\<close> values of
  the pressure events) are arguments of the model.
\<close>

definition analyze_exchange_window ::
  "real \<Rightarrow> real \<Rightarrow> event list \<Rightarrow> event list \<Rightarrow> event list \<Rightarrow> monitor_row list
     \<Rightarrow> real option list \<Rightarrow> basket_exchange option"
where
  "analyze_exchange_window start_t end_t all_operator_events seq_rows relay_rows
       monitor_data pressure_data =
     (let ops = filter (\<lambda>e. in_window (start_t, end_t) (ev_timestamp e)) all_operator_events
      in if ops = [] then None
         else
           let etype = classify_exchange ops seq_rows relay_rows;
               conf = calculate_confidence ops seq_rows relay_rows
           in if conf < 0.6 then None
              else
                let remote_temps = topic_values ''monitor/temperature/remote'' monitor_data;
                    fuel_readings = topic_values ''monitor/fuel_gallons'' monitor_data;
                    pressures = positive_values pressure_data
                in Some
                  \<lparr>start_time = start_t, end_time = end_t,
                   duration_seconds = end_t - start_t,
                   operator_signals = ops, sequence_events = seq_rows,
                   relay_events = relay_rows, exchange_type = etype, confidence = conf,
                   avg_remote_temp = (if remote_temps \<noteq> [] then Some (mean remote_temps) else None),
                   min_remote_temp =
                     (if remote_temps \<noteq> [] then Some (Min (set remote_temps)) else None),
                   max_remote_temp =
                     (if remote_temps \<noteq> [] then Some (Max (set remote_temps)) else None),
                   fuel_consumption =
                     (if length fuel_readings \<ge> 2
                      then Some (hd fuel_readings - last fuel_readings) else None),
                   avg_pressure = (if pressures \<noteq> [] then Some (mean pressures) else None),
                   max_pressure =
                     (if pressures \<noteq> [] then Some (Max (set pressures)) else None)\<rparr>)"

text \<open>
  The loop of \<open>analyze_basket_exchanges\<close> over the identified windows; \<open>rows\<close> gives, for a
  window, the rows that the queries return for it.
\<close>

definition analyze_windows ::
  "event list \<Rightarrow> (time_window \<Rightarrow> event list \<times> event list \<times> monitor_row list \<times> real option list)
     \<Rightarrow> basket_exchange list"
where
  "analyze_windows operator_events rows =
     concat (map (\<lambda>w. case rows w of (sq, rl, mon, pr) \<Rightarrow>
                    (case analyze_exchange_window (fst w) (snd w) operator_events sq rl mon pr of
                       Some exchange \<Rightarrow> [exchange] | None \<Rightarrow> []))
                 (dashboard_identify_exchange_windows operator_events))"

section \<open>Grouping of triggers, in the words of the specification\<close>

text \<open>
  The times of the trigger events of a stream, in stream order: the events that the
  inactivity-timeout identifier considers.
\<close>

definition trigger_times :: "event list \<Rightarrow> real list" where
  "trigger_times es = map ev_timestamp (filter is_active_operator_signal es)"

text \<open>
  The specification groups the triggers so that two consecutive triggers lie in the same
  group exactly when they are at most the inactivity timeout \<open>T\<close> apart: a trigger
  joins the group of the trigger that follows it when that one comes within \<open>T\<close>, and
  otherwise closes a group of its own. Each group yields one window, from the pre-pad
  before its first trigger to the post-pad after its last trigger; the pads of the source
  are 30 and 120 seconds.
\<close>

fun trigger_groups :: "real \<Rightarrow> real list \<Rightarrow> real list list" where
  "trigger_groups T [] = []"
| "trigger_groups T (t # ts) =
     (case trigger_groups T ts of
        [] \<Rightarrow> [[t]]
      | [] # gs \<Rightarrow> [t] # gs
      | (u # g) # gs \<Rightarrow> if u - t \<le> T then (t # u # g) # gs else [t] # (u # g) # gs)"

definition window_of_group :: "real list \<Rightarrow> time_window" where
  "window_of_group g = (hd g - 30, last g + 120)"

section \<open>Sample data\<close>

text \<open>
  Events as the database logger stores them: an operator signal going active or inactive,
  a sequence event and a relay event, each at a given time in seconds.
\<close>

definition press :: "real \<Rightarrow> event" where
  "press t = \<lparr>ev_timestamp = t, ev_type = ''DIGITAL_INPUT'',
              ev_payload = [(''input_type_name'', JStr ''SPLITTER_OPERATOR''),
                            (''state'', JBool True), (''state_name'', JStr ''ACTIVE'')]\<rparr>"

definition release :: "real \<Rightarrow> event" where
  "release t = \<lparr>ev_timestamp = t, ev_type = ''DIGITAL_INPUT'',
                ev_payload = [(''input_type_name'', JStr ''SPLITTER_OPERATOR''),
                              (''state'', JBool False), (''state_name'', JStr ''INACTIVE'')]\<rparr>"

definition seq_ev :: "real \<Rightarrow> event" where
  "seq_ev t = \<lparr>ev_timestamp = t, ev_type = ''SEQUENCE_EVENT'', ev_payload = []\<rparr>"

definition relay_ev :: "real \<Rightarrow> event" where
  "relay_ev t = \<lparr>ev_timestamp = t, ev_type = ''RELAY_EVENT'', ev_payload = []\<rparr>"

text \<open>
  Frames: the relay event of the decoder's test fixtures with a chosen length byte and
  sequence number, the fixture \<open>digital_input_3byte\<close> of \<open>tests/conftest.py\<close>, and
  that fixture with a length byte that excludes itself.
\<close>

definition relay_frame :: "byte \<Rightarrow> byte \<Rightarrow> bytes" where
  "relay_frame size_byte sequence =
     [size_byte, 0x12, sequence, 0x4E, 0x61, 0xBC, 0x00, 0x01, 0x0D, 0x00]"

definition digital_input_3byte :: bytes where
  "digital_input_3byte = [0x0A, 0x10, 0x01, 0x4E, 0x61, 0xBC, 0x00, 0x06, 0x16, 0x0A]"

definition digital_input_3byte_framed :: bytes where
  "digital_input_3byte_framed = [0x09, 0x10, 0x01, 0x4E, 0x61, 0xBC, 0x00, 0x06, 0x16, 0x0A]"

section \<open>The window classifier\<close>

text \<open>
  C2. The confidence of a window that contains at least one active operator signal is the
  baseline 0.8, less 0.2 when more than one active signal lies in the window, plus 0.2
  when a sequence event is present, plus 0.2 when a relay event is present, clamped to
  the interval from 0.6 to 1.0; so it is never below 0.6.
\<close>

theorem calculate_confidence_score:
  assumes "filter is_ACTIVE ops \<noteq> []"
  shows "calculate_confidence ops sqs rls =
           min 1.0 (max 0.6
             (0.8 - (if length (filter is_ACTIVE ops) > 1 then 0.2 else 0)
                  + (if sqs \<noteq> [] then 0.2 else 0)
                  + (if rls \<noteq> [] then 0.2 else 0)))
         \<and> 0.6 \<le> calculate_confidence ops sqs rls
         \<and> calculate_confidence ops sqs rls \<le> 1.0"
  using assms by (simp add: calculate_confidence_def Let_def)

theorem calculate_confidence_score_witness:
  "filter is_ACTIVE [press 0, press 5] \<noteq> []
   \<and> calculate_confidence [press 0, press 5] [] [] = 0.6
   \<and> calculate_confidence [press 0, press 5] [seq_ev 1] [] = 0.8
   \<and> calculate_confidence [press 0] [] [] = 0.8
   \<and> calculate_confidence [press 0] [seq_ev 1] [relay_ev 2] = 1.0"
  using calculate_confidence_score [of "[press 0, press 5]" "[]" "[]"]
        calculate_confidence_score [of "[press 0, press 5]" "[seq_ev 1]" "[]"]
        calculate_confidence_score [of "[press 0]" "[]" "[]"]
        calculate_confidence_score [of "[press 0]" "[seq_ev 1]" "[relay_ev 2]"]
  by (simp add: is_ACTIVE_def press_def)

text \<open>
  C8. When no operator signal inside the window is active, the confidence is 0.0 and
  \<open>_analyze_exchange_window\<close> returns no exchange, whatever sequence events, relay events,
  monitor rows and pressure rows the window holds.
\<close>

theorem zero_trigger_window_rejected:
  assumes "filter is_ACTIVE (filter (\<lambda>e. in_window (s, t) (ev_timestamp e)) all_ops) = []"
  shows "calculate_confidence (filter (\<lambda>e. in_window (s, t) (ev_timestamp e)) all_ops) sqs rls
           = 0.0
         \<and> analyze_exchange_window s t all_ops sqs rls mon pr = None"
  using assms by (simp add: calculate_confidence_def analyze_exchange_window_def Let_def)

theorem zero_trigger_window_rejected_witness:
  "filter is_ACTIVE (filter (\<lambda>e. in_window (0, 30) (ev_timestamp e)) [release 10]) = []
   \<and> calculate_confidence (filter (\<lambda>e. in_window (0, 30) (ev_timestamp e)) [release 10])
        [seq_ev 11, seq_ev 12] [relay_ev 13] = 0.0
   \<and> analyze_exchange_window 0 30 [release 10] [seq_ev 11, seq_ev 12] [relay_ev 13] [] []
        = None"
  using zero_trigger_window_rejected
          [of 0 30 "[release 10]" "[seq_ev 11, seq_ev 12]" "[relay_ev 13]" "[]" "[]"]
  by (simp add: is_ACTIVE_def release_def in_window_def)

text \<open>
  C5, as the code has it. The classification is \<open>SEQUENCE\<close> for at least two sequence
  events and no relay event, \<open>MIXED\<close> for at least two sequence events together with relay
  events, \<open>MANUAL\<close> for relay events with fewer than two sequence events, and
  \<open>BUTTON_ONLY\<close> when there are neither sequence events nor relay events.
\<close>

theorem classify_exchange_rule:
  "(length sqs \<ge> 2 \<and> rls = [] \<longrightarrow> classify_exchange ops sqs rls = ''SEQUENCE'')
   \<and> (length sqs \<ge> 2 \<and> rls \<noteq> [] \<longrightarrow> classify_exchange ops sqs rls = ''MIXED'')
   \<and> (rls \<noteq> [] \<and> length sqs < 2 \<longrightarrow> classify_exchange ops sqs rls = ''MANUAL'')
   \<and> (sqs = [] \<and> rls = [] \<longrightarrow> classify_exchange ops sqs rls = ''BUTTON_ONLY'')"
  by (auto simp add: classify_exchange_def)

theorem classify_exchange_rule_witness:
  "classify_exchange [press 0] [seq_ev 1, seq_ev 2] [] = ''SEQUENCE''
   \<and> classify_exchange [press 0] [seq_ev 1, seq_ev 2] [relay_ev 3] = ''MIXED''
   \<and> classify_exchange [press 0] [seq_ev 1] [relay_ev 3] = ''MANUAL''
   \<and> classify_exchange [press 0] [] [relay_ev 3] = ''MANUAL''
   \<and> classify_exchange [press 0] [] [] = ''BUTTON_ONLY''"
  using classify_exchange_rule [of "[seq_ev 1, seq_ev 2]" "[]" "[press 0]"]
        classify_exchange_rule [of "[seq_ev 1, seq_ev 2]" "[relay_ev 3]" "[press 0]"]
        classify_exchange_rule [of "[seq_ev 1]" "[relay_ev 3]" "[press 0]"]
        classify_exchange_rule [of "[]" "[relay_ev 3]" "[press 0]"]
        classify_exchange_rule [of "[]" "[]" "[press 0]"]
  by simp

text \<open>
  The rule of C5 as the specification words it fails for a window with one operator
  press, exactly one sequence event and one relay event: both kinds are present, yet the
  window, accepted with confidence 1.0, is classified \<open>MANUAL\<close> and not \<open>MIXED\<close>.
\<close>

theorem classify_exchange_one_sequence_event_counterexample:
  "classify_exchange [press 10] [seq_ev 11] [relay_ev 12] = ''MANUAL''
   \<and> classify_exchange [press 10] [seq_ev 11] [relay_ev 12] \<noteq> ''MIXED''
   \<and> map_option exchange_type
        (analyze_exchange_window 0 30 [press 10] [seq_ev 11] [relay_ev 12] [] [])
        = Some ''MANUAL''
   \<and> map_option confidence
        (analyze_exchange_window 0 30 [press 10] [seq_ev 11] [relay_ev 12] [] [])
        = Some 1.0"
  by (simp add: classify_exchange_def analyze_exchange_window_def calculate_confidence_def
        is_ACTIVE_def press_def in_window_def Let_def)

subsection \<open>The archived analyzer and the analysis loop\<close>

text \<open>
  The archived analyzer scores differently from the dashboard: it starts from 0.0, adds
  0.5 for an operator signal, 0.3 for sequence events, 0.2 for relay events and 0.2 for a
  second operator signal, and caps the sum at 1.0 without a floor; a window without
  sequence and relay events keeps the type \<open>UNKNOWN\<close>.
\<close>

lemma analyzer_classify_exchange_examples:
  "analyzer_classify_exchange [press 0] [] [] = (''UNKNOWN'', 0.5)
   \<and> analyzer_classify_exchange [press 0, press 5] [] [] = (''UNKNOWN'', 0.7)
   \<and> analyzer_classify_exchange [press 0] [seq_ev 1] [] = (''SEQUENCE'', 0.8)
   \<and> analyzer_classify_exchange [press 0] [seq_ev 1] [relay_ev 2] = (''MIXED'', 1.0)
   \<and> analyzer_classify_exchange [press 0] [] [relay_ev 2] = (''MANUAL'', 0.7)"
  by (simp add: analyzer_classify_exchange_def press_def Let_def)

text \<open>
  The dashboard on a stream with two presses, each followed by two sequence events inside
  its window: one exchange per press, classified \<open>SEQUENCE\<close> with confidence 1.0.
\<close>

lemma analyze_windows_example:
  "map (\<lambda>x. (start_time x, end_time x, exchange_type x, confidence x))
     (analyze_windows [press 0, release 2, press 100]
        (\<lambda>w. ([seq_ev (fst w + 11), seq_ev (fst w + 12)], [], [], [])))
   = [(-10, 20, ''SEQUENCE'', 1.0), (90, 120, ''SEQUENCE'', 1.0)]"
  by (simp add: analyze_windows_def analyze_exchange_window_def classify_exchange_def
        calculate_confidence_def is_ACTIVE_def press_def release_def in_window_def Let_def)

section \<open>The frame decoder\<close>

lemmas decode_eval =
  decode_message_def decode_message_try_def init_decoder_def unpack_L_def unpack_BBB_def
  unpack_BBH_def le_u16_def le_u32_def message_handlers_def check_sequence_def
  update_sequence_def get_type_name_def dict_get_def message_type_names_def fmt_02X_def
  hex_upper_def hex_lower_def bytes_hex_def string_of_nat.simps digit_char_def Let_def

subsection \<open>Bit fields of a flags byte\<close>

lemma and_2_odd: "((x::nat) AND 2 \<noteq> 0) = odd (x div 2)"
proof -
  have "bit x 1 = (x AND push_bit 1 1 \<noteq> 0)" by (rule bit_iff_and_push_bit_not_eq_0)
  moreover have "bit x 1 = odd (x div 2)" by (simp add: bit_iff_odd_drop_bit drop_bit_eq_div)
  ultimately show ?thesis by simp
qed

lemma and_2_pos: "(0 < (x::nat) AND 2) = odd (x div 2)"
  using and_2_odd [of x] by simp

lemma byte_bits_2_7: "drop_bit 2 (unat (b::byte)) AND 0x3F = unat b div 4"
proof -
  have "unat b < 256" using unsigned_less [of b] by simp
  then have lt: "unat b div 4 < 64" by simp
  have "drop_bit 2 (unat b) AND 0x3F = take_bit 6 (unat b div 4)"
    by (simp add: take_bit_eq_mask drop_bit_eq_div mask_eq_exp_minus_1)
  also have "\<dots> = unat b div 4" using lt by (simp add: take_bit_eq_mod)
  finally show ?thesis .
qed

subsection \<open>Dispatch\<close>

lemma is_Exception_all: "is_Exception e"
  by (cases e) simp_all

lemma message_handlers_None: "(message_handlers t = None) = (t < 0x10 \<or> 0x17 < t)"
  by (auto simp add: message_handlers_def)

lemma get_type_name_unknown:
  "t < 0x10 \<or> 0x17 < t \<Longrightarrow> get_type_name t = ''UNKNOWN_0x'' @ fmt_02X t"
  by (auto simp add: get_type_name_def dict_get_def message_type_names_def)

subsection \<open>The length byte\<close>

text \<open>
  For a buffer of at least seven bytes, \<open>decode_message\<close> rejects the frame exactly when
  byte 0 differs from the buffer length, whereas \<open>validate_message\<close> rejects it when
  byte 0 plus one differs from the buffer length.
\<close>

lemma decode_message_size_check:
  assumes "7 \<le> length data"
  shows "(unat (data ! 0) \<noteq> length data \<longrightarrow>
            decode_message s data =
              Inr (None,
                   s\<lparr>messages_received := messages_received s + 1,
                      decode_errors := decode_errors s + 1\<rparr>,
                   [ErrSizeMismatch (unat (data ! 0)) (length data)]))
         \<and> (decode_message s data = Inr (Some m, s', out) \<longrightarrow> unat (data ! 0) = length data)"
  using assms
  by (auto simp add: decode_message_def decode_message_try_def Let_def
        split: sum.splits option.splits prod.splits if_splits)

lemma validate_message_length_prefix:
  assumes "7 \<le> length data"
  shows "(valid (validate_message data) \<longrightarrow> unat (data ! 0) + 1 = length data)
         \<and> (unat (data ! 0) + 1 \<noteq> length data \<longrightarrow>
              \<not> valid (validate_message data)
              \<and> issues (validate_message data)
                  = [SizeMismatch (unat (data ! 0)) (unat (data ! 0) + 1) (length data)])"
  using assms
  by (auto simp add: validate_message_def Let_def
        split: option.splits expected_size.splits if_splits)

text \<open>
  C1. The length byte declares the frame size excluding itself, so a ten-byte relay frame
  carries the length byte 9. \<open>decode_message\<close> rejects that frame with a size mismatch and
  accepts the same frame with the length byte 10 (where the declared length plus one is
  11, not the buffer length); \<open>validate_message\<close> decides both frames the other way
  round.
\<close>

theorem decode_message_length_prefix_off_by_one:
  "decode_message init_decoder (relay_frame 9 3) =
     Inr (None,
          \<lparr>messages_received = 1, messages_decoded = 0, decode_errors = 1,
             last_sequence = Map.empty\<rparr>,
          [ErrSizeMismatch 9 10])
   \<and> decode_message init_decoder (relay_frame 10 3) =
     Inr (Some \<lparr>msg_size = 10, msg_type = 0x12, msg_type_name = ''RELAY_EVENT'',
                msg_sequence = 3, msg_timestamp = 12345678,
                msg_payload = Some (RelayEvent
                  \<lparr>re_relay_number = 1, re_relay_name = ''R1'', re_state = True,
                   re_state_name = ''ON'', re_is_manual = False, re_operation_mode = ''AUTO'',
                   re_success = True, re_success_name = ''SUCCESS'', re_relay_type = 1,
                   re_relay_type_name = ''HYDRAULIC_EXTEND''\<rparr>),
                msg_raw_payload_hex = ''010d00''\<rparr>,
          \<lparr>messages_received = 1, messages_decoded = 1, decode_errors = 0,
             last_sequence = Map.empty(0x12 \<mapsto> 3)\<rparr>,
          [])
   \<and> valid (validate_message (relay_frame 9 3))
   \<and> issues (validate_message (relay_frame 10 3)) = [SizeMismatch 10 11 10]"
  by (simp add: decode_eval relay_frame_def decode_relay_event_def get_relay_type_name_def
        validate_message_def VALID_MESSAGE_TYPES_def EXPECTED_PAYLOAD_SIZES_def)

subsection \<open>Sequence numbers\<close>

text \<open>
  What \<open>decode_message\<close> does with the sequence number of any buffer. A buffer that
  fails one of the two length checks leaves \<open>last_sequence\<close> alone and prints no gap
  warning. A buffer that passes them stores its sequence number under its type, whether
  or not the payload decodes, and the gap warning is printed exactly when the type has
  been seen before and the sequence number is not the last one plus one modulo 256; the
  warning carries that expected number and the received one. The first frame of a type
  and a frame that continues the sequence both pass in silence.
\<close>

lemma decode_message_sequence_tracking:
  "\<exists>r s' out. decode_message s data = Inr (r, s', out)
     \<and> last_sequence s' =
         (if 7 \<le> length data \<and> unat (data ! 0) = length data
          then (last_sequence s)(unat (data ! 1) \<mapsto> unat (data ! 2))
          else last_sequence s)
     \<and> (WarnSequenceGap t e a \<in> set out) =
         (7 \<le> length data \<and> unat (data ! 0) = length data
          \<and> t = unat (data ! 1) \<and> a = unat (data ! 2)
          \<and> last_sequence s t \<noteq> None
          \<and> e = (the (last_sequence s t) + 1) mod 256 \<and> a \<noteq> e)"
  by (auto simp add: decode_message_def decode_message_try_def Let_def is_Exception_all
        unpack_L_def check_sequence_def update_sequence_def
        split: sum.splits option.splits prod.splits seq_report.splits if_splits)


subsection \<open>Unknown message types\<close>

text \<open>
  C6, as the code has it. For every buffer of at least seven bytes whose type byte is
  outside 0x10 to 0x17, \<open>decode_message\<close> has exactly two outcomes, and neither is an
  unknown-type failure. When its length check passes the buffer it prints the
  unknown-type warning (after the gap warning, if there is one) and returns a record with
  the size, the type code, the type name \<open>UNKNOWN_0xNN\<close>, the sequence number, the
  little-endian timestamp, no payload and the payload bytes in hex; it remembers the
  sequence number and counts neither a decoded message nor a decode error. Otherwise it
  returns \<open>None\<close> with the size-mismatch error it gives for a buffer of any type.
\<close>

theorem unknown_type_flagged_not_rejected:
  assumes "7 \<le> length data"
    and "unat (data ! 1) < 0x10 \<or> 0x17 < unat (data ! 1)"
  shows "decode_message s data =
           (if unat (data ! 0) = length data
            then Inr (Some \<lparr>msg_size = length data,
                            msg_type = unat (data ! 1),
                            msg_type_name = ''UNKNOWN_0x'' @ fmt_02X (unat (data ! 1)),
                            msg_sequence = unat (data ! 2),
                            msg_timestamp = le_u32 (data ! 3) (data ! 4) (data ! 5) (data ! 6),
                            msg_payload = None,
                            msg_raw_payload_hex = bytes_hex (drop 7 data)\<rparr>,
                      s\<lparr>messages_received := messages_received s + 1,
                        last_sequence :=
                          (last_sequence s)(unat (data ! 1) \<mapsto> unat (data ! 2))\<rparr>,
                      (case last_sequence s (unat (data ! 1)) of
                         None \<Rightarrow> []
                       | Some l \<Rightarrow>
                           if unat (data ! 2) \<noteq> (l + 1) mod 256
                           then [WarnSequenceGap (unat (data ! 1)) ((l + 1) mod 256)
                                   (unat (data ! 2))]
                           else [])
                      @ [WarnUnknownType (unat (data ! 1))])
            else Inr (None,
                      s\<lparr>messages_received := messages_received s + 1,
                        decode_errors := decode_errors s + 1\<rparr>,
                      [ErrSizeMismatch (unat (data ! 0)) (length data)]))"
proof -
  have h: "message_handlers (unat (data ! 1)) = None"
    using assms(2) by (simp add: message_handlers_None)
  have n: "get_type_name (unat (data ! 1)) = ''UNKNOWN_0x'' @ fmt_02X (unat (data ! 1))"
    using assms(2) by (rule get_type_name_unknown)
  have t: "take 4 (drop 3 data) = [data ! 3, data ! 4, data ! 5, data ! 6]"
    using assms(1) by (auto simp add: list_eq_iff_nth_eq nth_Cons split: nat.splits)
  have b: "bytes_hex [] = []" by (simp add: bytes_hex_def)
  show ?thesis
    using assms(1) h n t b
    by (auto simp add: decode_message_def decode_message_try_def Let_def unpack_L_def
          update_sequence_def check_sequence_def split: option.splits)
qed

theorem unknown_type_flagged_not_rejected_witness:
  "decode_message init_decoder [0x0A, 0x18, 0x01, 0x4E, 0x61, 0xBC, 0x00, 0x01, 0x02, 0x03]
   = Inr (Some \<lparr>msg_size = 10, msg_type = 0x18, msg_type_name = ''UNKNOWN_0x18'',
                 msg_sequence = 1, msg_timestamp = 12345678, msg_payload = None,
                 msg_raw_payload_hex = ''010203''\<rparr>,
          \<lparr>messages_received = 1, messages_decoded = 0, decode_errors = 0,
             last_sequence = Map.empty(0x18 \<mapsto> 1)\<rparr>,
          [WarnUnknownType 0x18])
   \<and> decode_message init_decoder [0x09, 0x18, 0x01, 0x4E, 0x61, 0xBC, 0x00, 0x01, 0x02, 0x03]
   = Inr (None,
          \<lparr>messages_received = 1, messages_decoded = 0, decode_errors = 1,
             last_sequence = Map.empty\<rparr>,
          [ErrSizeMismatch 9 10])"
  using unknown_type_flagged_not_rejected
          [of "[0x0A, 0x18, 0x01, 0x4E, 0x61, 0xBC, 0x00, 0x01, 0x02, 0x03]" init_decoder]
        unknown_type_flagged_not_rejected
          [of "[0x09, 0x18, 0x01, 0x4E, 0x61, 0xBC, 0x00, 0x01, 0x02, 0x03]" init_decoder]
  by (simp add: init_decoder_def fmt_02X_def hex_upper_def hex_lower_def bytes_hex_def
        le_u32_def)

text \<open>
  The unknown-type rule as the specification words it fails on the seven-byte frame of
  type 0xFF under either reading of the length byte. With the length byte 6, which
  excludes itself, the frame is rejected with a size mismatch and no unknown-type failure
  is raised; with the length byte 7 a record is returned for the frame and no decode
  error is counted.
\<close>

theorem unknown_type_counterexample:
  "decode_message init_decoder [0x06, 0xFF, 0x01, 0x4E, 0x61, 0xBC, 0x00]
   = Inr (None,
          \<lparr>messages_received = 1, messages_decoded = 0, decode_errors = 1,
             last_sequence = Map.empty\<rparr>,
          [ErrSizeMismatch 6 7])
   \<and> decode_message init_decoder [0x07, 0xFF, 0x01, 0x4E, 0x61, 0xBC, 0x00]
   = Inr (Some \<lparr>msg_size = 7, msg_type = 0xFF, msg_type_name = ''UNKNOWN_0xFF'',
                 msg_sequence = 1, msg_timestamp = 12345678, msg_payload = None,
                 msg_raw_payload_hex = []\<rparr>,
          \<lparr>messages_received = 1, messages_decoded = 0, decode_errors = 0,
             last_sequence = Map.empty(0xFF \<mapsto> 1)\<rparr>,
          [WarnUnknownType 0xFF])"
  by (simp add: decode_eval)

subsection \<open>Digital input\<close>

text \<open>
  The handler accepts a payload of exactly four bytes: the pin, a flags byte holding
  active (bit 0), debounced (bit 1) and the input kind (bits 2 to 7), and a 16-bit
  little-endian debounce time. A shorter payload decodes to nothing and a longer one
  raises \<open>struct.error\<close>.
\<close>

lemma decode_digital_input_4:
  assumes "length p = 4"
  shows "decode_digital_input p =
           Inr (Some (DigitalInput
             \<lparr>di_pin = unat (p ! 0),
              di_state = odd (unat (p ! 1)),
              di_state_name = (if odd (unat (p ! 1)) then ''ACTIVE'' else ''INACTIVE''),
              di_is_debounced = odd (unat (p ! 1) div 2),
              di_input_type = unat (p ! 1) div 4,
              di_input_type_name = get_input_type_name (unat (p ! 1) div 4),
              di_debounce_time_ms = unat (p ! 2) + 256 * unat (p ! 3)\<rparr>))"
  using assms
  by (auto simp add: decode_digital_input_def unpack_BBH_def le_u16_def and_2_pos
        byte_bits_2_7 odd_iff_mod_2_eq_one and_one_eq)

lemma decode_digital_input_short: "length p < 4 \<Longrightarrow> decode_digital_input p = Inr None"
  by (simp add: decode_digital_input_def)

lemma decode_digital_input_long: "4 < length p \<Longrightarrow> decode_digital_input p = Inl StructError"
  by (simp add: decode_digital_input_def unpack_BBH_def)

text \<open>
  C7. The test fixture \<open>digital_input_3byte\<close>, a digital input frame with the three
  payload bytes pin 6, flags 0x16 and debounce 10, is returned without a decoded payload
  and is not counted as decoded, because the handler gives \<open>None\<close> for three bytes. The
  same frame with the length byte 9, which excludes itself, is rejected with a size
  mismatch before the handler is reached.
\<close>

theorem digital_input_3byte_not_decoded:
  "decode_message init_decoder digital_input_3byte =
     Inr (Some \<lparr>msg_size = 10, msg_type = 0x10, msg_type_name = ''DIGITAL_INPUT'',
                msg_sequence = 1, msg_timestamp = 12345678, msg_payload = None,
                msg_raw_payload_hex = ''06160a''\<rparr>,
          \<lparr>messages_received = 1, messages_decoded = 0, decode_errors = 0,
             last_sequence = Map.empty(0x10 \<mapsto> 1)\<rparr>,
          [])
   \<and> decode_digital_input [0x06, 0x16, 0x0A] = Inr None
   \<and> decode_message init_decoder digital_input_3byte_framed =
     Inr (None,
          \<lparr>messages_received = 1, messages_decoded = 0, decode_errors = 1,
             last_sequence = Map.empty\<rparr>,
          [ErrSizeMismatch 9 10])"
  by (simp add: decode_eval digital_input_3byte_def digital_input_3byte_framed_def
        decode_digital_input_def)

subsection \<open>Totality\<close>

text \<open>
  C9. For every decoder state and every byte buffer, \<open>decode_message\<close> returns: no
  exception reaches the caller. It counts the message as received, and it returns either
  a record, leaving the error count alone, or \<open>None\<close>, in which case it has counted one
  decode error and the last line printed reports that error.
\<close>

theorem decode_message_total:
  "\<exists>r s' out. decode_message s data = Inr (r, s', out)
      \<and> messages_received s' = messages_received s + 1
      \<and> (r = None \<longrightarrow>
            decode_errors s' = decode_errors s + 1 \<and> out \<noteq> [] \<and> is_error_line (last out))
      \<and> (r \<noteq> None \<longrightarrow> decode_errors s' = decode_errors s)"
  by (auto simp add: decode_message_def decode_message_try_def Let_def is_Exception_all
        split: sum.splits option.splits prod.splits if_splits)

theorem decode_message_total_witness:
  "decode_message init_decoder [] =
     Inr (None, \<lparr>messages_received = 1, messages_decoded = 0, decode_errors = 1,
                  last_sequence = Map.empty\<rparr>, [ErrTooShort 0])
   \<and> snd (snd (decode_message_try init_decoder
                 [0x0B, 0x11, 0x01, 0x4E, 0x61, 0xBC, 0x00, 0x09, 0x03, 0x00, 0x00]))
       = Inl StructError
   \<and> decode_message init_decoder
       [0x0B, 0x11, 0x01, 0x4E, 0x61, 0xBC, 0x00, 0x09, 0x03, 0x00, 0x00] =
     Inr (None, \<lparr>messages_received = 1, messages_decoded = 0, decode_errors = 1,
                  last_sequence = Map.empty(0x11 \<mapsto> 1)\<rparr>,
          [ErrDecodeException StructError])"
  using decode_message_total [of init_decoder "[]"]
        decode_message_total
          [of init_decoder "[0x0B, 0x11, 0x01, 0x4E, 0x61, 0xBC, 0x00, 0x09, 0x03, 0x00, 0x00]"]
  by (simp add: decode_eval decode_digital_output_def)

section \<open>The window identifiers\<close>

lemma window_of_group_Cons: "window_of_group (t # g) = (t - 30, last (t # g) + 120)"
  by (simp add: window_of_group_def)

lemma trigger_groups_Cons: "\<exists>g gs. trigger_groups T (t # ts) = (t # g) # gs"
  by (simp split: list.splits)

lemma concat_trigger_groups: "concat (trigger_groups T ts) = ts"
  by (induction ts) (auto split: list.splits)

lemma trigger_groups_nonempty: "[] \<notin> set (trigger_groups T ts)"
  by (induction ts) (auto split: list.splits)

lemma trigger_groups_step:
  "trigger_groups T (l # t # ts) =
     (case trigger_groups T (t # ts) of
        g # gs \<Rightarrow> if t - l \<le> T then (l # g) # gs else [l] # g # gs
      | [] \<Rightarrow> [[l]])"
  using trigger_groups_Cons [of T t ts] by (auto split: list.splits)

lemma scan_open:
  "\<exists>st'. scan_events T \<lparr>current_window_start = Some s, last_signal_time = Some l,
                          windows = ws\<rparr> es = Inr st'
         \<and> close_final_window st' =
             ws @ (case trigger_groups T (l # trigger_times es) of
                     g # gs \<Rightarrow> (s - 30, last g + 120) # map window_of_group gs
                   | [] \<Rightarrow> [])"
proof (induction es arbitrary: s l ws)
  case Nil
  show ?case by (simp add: close_final_window_def trigger_times_def)
next
  case (Cons e es)
  show ?case
  proof (cases "is_active_operator_signal e")
    case False
    then show ?thesis
      using Cons.IH [of s l ws] by (simp add: scan_event_def Let_def trigger_times_def)
  next
    case True
    let ?t = "ev_timestamp e"
    have tt: "trigger_times (e # es) = ?t # trigger_times es"
      using True by (simp add: trigger_times_def)
    obtain g gs where G: "trigger_groups T (?t # trigger_times es) = (?t # g) # gs"
      using trigger_groups_Cons by blast
    show ?thesis
    proof (cases "?t - l \<le> T")
      case le: True
      from Cons.IH [of s ?t ws] obtain st' where
        "scan_events T \<lparr>current_window_start = Some s, last_signal_time = Some ?t,
                          windows = ws\<rparr> es = Inr st'"
        "close_final_window st' =
           ws @ (case trigger_groups T (?t # trigger_times es) of
                   g # gs \<Rightarrow> (s - 30, last g + 120) # map window_of_group gs
                 | [] \<Rightarrow> [])"
        by blast
      then show ?thesis
        using True le G by (simp add: scan_event_def Let_def tt trigger_groups_step del: trigger_groups.simps)
    next
      case gt: False
      from Cons.IH [of ?t ?t "ws @ [(s - 30, l + 120)]"] obtain st' where
        "scan_events T \<lparr>current_window_start = Some ?t, last_signal_time = Some ?t,
                          windows = ws @ [(s - 30, l + 120)]\<rparr> es = Inr st'"
        "close_final_window st' =
           (ws @ [(s - 30, l + 120)])
             @ (case trigger_groups T (?t # trigger_times es) of
                   g # gs \<Rightarrow> (?t - 30, last g + 120) # map window_of_group gs
                 | [] \<Rightarrow> [])"
        by blast
      then show ?thesis
        using True gt G
        by (simp add: scan_event_def Let_def tt trigger_groups_step window_of_group_Cons
              del: trigger_groups.simps)
    qed
  qed
qed

lemma scan_closed:
  "\<exists>st'. scan_events T \<lparr>current_window_start = None, last_signal_time = None,
                          windows = []\<rparr> es = Inr st'
         \<and> close_final_window st' = map window_of_group (trigger_groups T (trigger_times es))"
proof (induction es)
  case Nil
  show ?case by (simp add: close_final_window_def trigger_times_def)
next
  case (Cons e es)
  show ?case
  proof (cases "is_active_operator_signal e")
    case False
    then show ?thesis using Cons.IH by (simp add: scan_event_def Let_def trigger_times_def)
  next
    case True
    let ?t = "ev_timestamp e"
    have tt: "trigger_times (e # es) = ?t # trigger_times es"
      using True by (simp add: trigger_times_def)
    obtain g gs where G: "trigger_groups T (?t # trigger_times es) = (?t # g) # gs"
      using trigger_groups_Cons by blast
    from scan_open [of T ?t ?t "[]" es] obtain st' where
      "scan_events T \<lparr>current_window_start = Some ?t, last_signal_time = Some ?t,
                        windows = []\<rparr> es = Inr st'"
      "close_final_window st' =
         [] @ (case trigger_groups T (?t # trigger_times es) of
                 g # gs \<Rightarrow> (?t - 30, last g + 120) # map window_of_group gs
               | [] \<Rightarrow> [])"
      by blast
    then show ?thesis
      using True G by (simp add: scan_event_def Let_def tt window_of_group_Cons del: trigger_groups.simps)
  qed
qed

lemma identify_exchange_windows_groups:
  "identify_exchange_windows T es
     = Inr (map window_of_group (trigger_groups T (trigger_times es)))"
proof (cases "es = []")
  case True
  then show ?thesis by (simp add: identify_exchange_windows_def trigger_times_def)
next
  case False
  obtain st' where
    "scan_events T \<lparr>current_window_start = None, last_signal_time = None,
                      windows = []\<rparr> es = Inr st'"
    "close_final_window st' = map window_of_group (trigger_groups T (trigger_times es))"
    using scan_closed by blast
  then show ?thesis
    using False by (simp add: identify_exchange_windows_def)
qed


lemma trigger_groups_Cons_eq:
  "trigger_groups T (x # rest) =
     (case trigger_groups T rest of
        [] \<Rightarrow> [[x]]
      | g # gs \<Rightarrow> if hd g - x \<le> T then (x # g) # gs else [x] # g # gs)"
  using trigger_groups_nonempty [of T rest] by (auto split: list.splits)

lemma trigger_groups_prefix_step:
  assumes "trigger_groups T rest = gs1 @ M # gs2"
  shows "\<exists>gs1' p. trigger_groups T (x # rest) = gs1' @ (p @ M) # gs2"
proof (cases gs1)
  case Nil
  show ?thesis
  proof (cases "hd M - x \<le> T")
    case True
    then have "trigger_groups T (x # rest) = [] @ ([x] @ M) # gs2"
      using assms Nil by (simp add: trigger_groups_Cons_eq del: trigger_groups.simps)
    then show ?thesis by blast
  next
    case False
    then have "trigger_groups T (x # rest) = [[x]] @ ([] @ M) # gs2"
      using assms Nil by (simp add: trigger_groups_Cons_eq del: trigger_groups.simps)
    then show ?thesis by blast
  qed
next
  case (Cons h hs)
  show ?thesis
  proof (cases "hd h - x \<le> T")
    case True
    then have "trigger_groups T (x # rest) = ((x # h) # hs) @ ([] @ M) # gs2"
      using assms Cons by (simp add: trigger_groups_Cons_eq del: trigger_groups.simps)
    then show ?thesis by blast
  next
    case False
    then have "trigger_groups T (x # rest) = ([x] # h # hs) @ ([] @ M) # gs2"
      using assms Cons by (simp add: trigger_groups_Cons_eq del: trigger_groups.simps)
    then show ?thesis by blast
  qed
qed

lemma trigger_groups_prefix:
  assumes "trigger_groups T rest = gs1 @ M # gs2"
  shows "\<exists>gs1' p. trigger_groups T (xs @ rest) = gs1' @ (p @ M) # gs2"
proof (induction xs)
  case Nil
  have "trigger_groups T ([] @ rest) = gs1 @ ([] @ M) # gs2" using assms by simp
  then show ?case by blast
next
  case (Cons x xs)
  then obtain gs1' p where "trigger_groups T (xs @ rest) = gs1' @ (p @ M) # gs2" by blast
  from trigger_groups_prefix_step [OF this, of x]
  obtain gs1'' p' where "trigger_groups T (x # xs @ rest) = gs1'' @ (p' @ p @ M) # gs2"
    by blast
  then have "trigger_groups T ((x # xs) @ rest) = gs1'' @ ((p' @ p) @ M) # gs2" by simp
  then show ?case by blast
qed

lemma trigger_groups_same:
  assumes "b - a \<le> T"
  shows "\<exists>gs1 g1 g2 gs2. trigger_groups T (xs @ a # b # ys) = gs1 @ (g1 @ a # b # g2) # gs2"
proof -
  obtain g gs where G: "trigger_groups T (b # ys) = (b # g) # gs"
    using trigger_groups_Cons by blast
  have "trigger_groups T (a # b # ys) = [] @ (a # b # g) # gs"
    using assms G by (simp add: trigger_groups_step del: trigger_groups.simps)
  from trigger_groups_prefix [OF this, of xs] show ?thesis by blast
qed

lemma trigger_groups_split:
  assumes "T < b - a"
  shows "\<exists>gs1 g1 g2 gs2. trigger_groups T (xs @ a # b # ys) = gs1 @ (g1 @ [a]) # (b # g2) # gs2"
proof -
  obtain g gs where G: "trigger_groups T (b # ys) = (b # g) # gs"
    using trigger_groups_Cons by blast
  have "trigger_groups T (a # b # ys) = [] @ [a] # (b # g) # gs"
    using assms G by (simp add: trigger_groups_step del: trigger_groups.simps)
  from trigger_groups_prefix [OF this, of xs] show ?thesis by blast
qed

lemma concat_nonempty: "gs \<noteq> [] \<Longrightarrow> [] \<notin> set gs \<Longrightarrow> concat gs \<noteq> []"
  by (cases gs) auto

lemma last_concat_nonempty:
  "gs \<noteq> [] \<Longrightarrow> [] \<notin> set gs \<Longrightarrow> last (concat gs) = last (last gs)"
proof (induction gs)
  case Nil
  then show ?case by simp
next
  case (Cons g gs)
  show ?case
  proof (cases "gs = []")
    case True
    then show ?thesis by simp
  next
    case False
    then have "concat gs \<noteq> []" using Cons.prems concat_nonempty [of gs] by simp
    then show ?thesis using Cons False by simp
  qed
qed

lemma sorted_concat_member:
  "sorted (concat gs) \<Longrightarrow> g \<in> set gs \<Longrightarrow> sorted (g :: real list)"
  by (induction gs) (auto simp add: sorted_append)


text \<open>
  C4. The identifier never raises and emits one window per group of triggers, in order:
  the window of a group starts 30 seconds (the pre-pad) before the group's first trigger
  and ends 120 seconds (the post-pad) after its last trigger. The groups partition the
  triggers in stream order. Two consecutive triggers at most the timeout apart, equality
  included, are triggers of one and the same window; when they are more than the timeout
  apart, the window open at the first is closed with end = that trigger + 120 and the next
  window starts at the new trigger - 30. The last window emitted ends 120 seconds after
  the last trigger of the input.
\<close>

theorem identify_exchange_windows_grouping:
  "identify_exchange_windows T es
     = Inr (map window_of_group (trigger_groups T (trigger_times es)))
   \<and> concat (trigger_groups T (trigger_times es)) = trigger_times es
   \<and> [] \<notin> set (trigger_groups T (trigger_times es))
   \<and> (trigger_times es = xs @ a # b # ys \<and> b - a \<le> T \<longrightarrow>
        (\<exists>ws1 g1 g2 ws2.
            g1 @ a # b # g2 \<in> set (trigger_groups T (trigger_times es))
          \<and> identify_exchange_windows T es
              = Inr (ws1 @ window_of_group (g1 @ a # b # g2) # ws2)))
   \<and> (trigger_times es = xs @ a # b # ys \<and> T < b - a \<longrightarrow>
        (\<exists>ws1 s e ws2.
            identify_exchange_windows T es = Inr (ws1 @ (s, a + 120) # (b - 30, e) # ws2)))
   \<and> (trigger_times es \<noteq> [] \<longrightarrow>
        (\<exists>ws s. identify_exchange_windows T es
                  = Inr (ws @ [(s, last (trigger_times es) + 120)])))"
proof -
  let ?ts = "trigger_times es"
  let ?G = "trigger_groups T ?ts"
  have W: "identify_exchange_windows T es = Inr (map window_of_group ?G)"
    by (rule identify_exchange_windows_groups)
  have same: "?ts = xs @ a # b # ys \<and> b - a \<le> T \<longrightarrow>
        (\<exists>ws1 g1 g2 ws2. g1 @ a # b # g2 \<in> set ?G
          \<and> identify_exchange_windows T es
              = Inr (ws1 @ window_of_group (g1 @ a # b # g2) # ws2))"
  proof
    assume h: "?ts = xs @ a # b # ys \<and> b - a \<le> T"
    then obtain gs1 g1 g2 gs2 where G: "?G = gs1 @ (g1 @ a # b # g2) # gs2"
      using trigger_groups_same [of b a T xs ys] by auto
    have "g1 @ a # b # g2 \<in> set ?G" using G by simp
    moreover have "identify_exchange_windows T es
        = Inr (map window_of_group gs1 @ window_of_group (g1 @ a # b # g2)
                 # map window_of_group gs2)"
      using W G by simp
    ultimately show "\<exists>ws1 g1 g2 ws2. g1 @ a # b # g2 \<in> set ?G
          \<and> identify_exchange_windows T es
              = Inr (ws1 @ window_of_group (g1 @ a # b # g2) # ws2)"
      by blast
  qed
  have split: "?ts = xs @ a # b # ys \<and> T < b - a \<longrightarrow>
        (\<exists>ws1 s e ws2.
            identify_exchange_windows T es = Inr (ws1 @ (s, a + 120) # (b - 30, e) # ws2))"
  proof
    assume h: "?ts = xs @ a # b # ys \<and> T < b - a"
    then obtain gs1 g1 g2 gs2 where G: "?G = gs1 @ (g1 @ [a]) # (b # g2) # gs2"
      using trigger_groups_split [of T b a xs ys] by auto
    have "identify_exchange_windows T es
        = Inr (map window_of_group gs1 @ (hd (g1 @ [a]) - 30, a + 120)
                 # (b - 30, last (b # g2) + 120) # map window_of_group gs2)"
      using W G by (simp add: window_of_group_def)
    then show "\<exists>ws1 s e ws2.
            identify_exchange_windows T es = Inr (ws1 @ (s, a + 120) # (b - 30, e) # ws2)"
      by blast
  qed
  have final: "?ts \<noteq> [] \<longrightarrow>
        (\<exists>ws s. identify_exchange_windows T es = Inr (ws @ [(s, last ?ts + 120)]))"
  proof
    assume ne: "?ts \<noteq> []"
    have Gne: "?G \<noteq> []" using ne concat_trigger_groups [of T ?ts] by auto
    have "last (last ?G) = last ?ts"
      using last_concat_nonempty [OF Gne trigger_groups_nonempty]
      by (simp add: concat_trigger_groups)
    moreover have "map window_of_group ?G
        = map window_of_group (butlast ?G) @ [window_of_group (last ?G)]"
      using Gne by (metis append_butlast_last_id list.simps(8,9) map_append)
    ultimately have "identify_exchange_windows T es
        = Inr (map window_of_group (butlast ?G) @ [(hd (last ?G) - 30, last ?ts + 120)])"
      using W by (simp add: window_of_group_def)
    then show "\<exists>ws s. identify_exchange_windows T es = Inr (ws @ [(s, last ?ts + 120)])"
      by blast
  qed
  from W concat_trigger_groups [of T ?ts] trigger_groups_nonempty [of T ?ts] same split final
  show ?thesis by blast
qed

theorem identify_exchange_windows_grouping_witness:
  "identify_exchange_windows 30 [press 0, press 20, release 25, press 100]
     = Inr [(-30, 140), (70, 220)]
   \<and> trigger_groups 30 [0, 20, 100] = [[0, 20], [100]]
   \<and> identify_exchange_windows 20 [press 0, press 20, release 25, press 100]
     = Inr [(-30, 140), (70, 220)]
   \<and> identify_exchange_windows 19 [press 0, press 20]
     = Inr [(-30, 120), (-10, 140)]"
  using identify_exchange_windows_grouping
          [of 30 "[press 0, press 20, release 25, press 100]" "[]" 0 20 "[100]"]
        identify_exchange_windows_grouping
          [of 30 "[press 0, press 20, release 25, press 100]" "[0]" 20 100 "[]"]
        identify_exchange_windows_grouping
          [of 20 "[press 0, press 20, release 25, press 100]" "[]" 0 20 "[100]"]
        identify_exchange_windows_grouping
          [of 19 "[press 0, press 20]" "[]" 0 20 "[]"]
  by (simp add: trigger_times_def is_active_operator_signal_def press_def release_def
        window_of_group_def)


lemma dashboard_windows_map:
  "dashboard_identify_exchange_windows ps
     = map (\<lambda>t. (t - 10, t + 20)) (map ev_timestamp (filter is_ACTIVE ps))"
  by (induction ps) simp_all

lemma sorted_hd_le_last: "sorted (g @ [a :: real]) \<Longrightarrow> hd (g @ [a]) \<le> a"
  by (cases g) (auto simp add: sorted_append)

lemma sorted_le_last: "sorted (b # g) \<Longrightarrow> (b :: real) \<le> last (b # g)"
  by (cases "g = []") auto

text \<open>
  C10. Emitted windows overlap. In the inactivity-timeout identifier with its default
  timeout of 60 seconds, two consecutive triggers of a time-ordered stream that are more
  than 60 and less than 150 seconds apart yield two consecutive windows, the first ending
  at the earlier trigger + 120, after the start of the second at the later trigger - 30;
  in the per-press identifier two consecutive active presses less than 30 seconds apart
  yield the windows from 10 seconds before to 20 seconds after each press, which overlap.
  In both cases every event in the overlap is a member of both windows.
\<close>

theorem exchange_windows_overlap:
  "(sorted (trigger_times es) \<and> trigger_times es = xs @ a # b # ys
      \<and> default_operator_signal_timeout < b - a \<and> b - a < 150 \<longrightarrow>
      (\<exists>ws1 s e ws2.
          identify_exchange_windows default_operator_signal_timeout es
            = Inr (ws1 @ (s, a + 120) # (b - 30, e) # ws2)
        \<and> b - 30 < a + 120
        \<and> (\<forall>t. b - 30 \<le> t \<and> t \<le> a + 120 \<longrightarrow>
               in_window (s, a + 120) t \<and> in_window (b - 30, e) t)))
   \<and> (map ev_timestamp (filter is_ACTIVE ps) = xs' @ a' # b' # ys'
      \<and> 0 \<le> b' - a' \<and> b' - a' < 30 \<longrightarrow>
      (\<exists>ws1 ws2.
          dashboard_identify_exchange_windows ps
            = ws1 @ (a' - 10, a' + 20) # (b' - 10, b' + 20) # ws2)
        \<and> b' - 10 < a' + 20
        \<and> (\<forall>t. b' - 10 \<le> t \<and> t \<le> a' + 20 \<longrightarrow>
               in_window (a' - 10, a' + 20) t \<and> in_window (b' - 10, b' + 20) t))"
proof -
  let ?T = default_operator_signal_timeout
  let ?ts = "trigger_times es"
  let ?G = "trigger_groups ?T ?ts"
  have archived: "sorted ?ts \<and> ?ts = xs @ a # b # ys \<and> ?T < b - a \<and> b - a < 150 \<longrightarrow>
      (\<exists>ws1 s e ws2.
          identify_exchange_windows ?T es = Inr (ws1 @ (s, a + 120) # (b - 30, e) # ws2)
        \<and> b - 30 < a + 120
        \<and> (\<forall>t. b - 30 \<le> t \<and> t \<le> a + 120 \<longrightarrow>
               in_window (s, a + 120) t \<and> in_window (b - 30, e) t))"
  proof
    assume h: "sorted ?ts \<and> ?ts = xs @ a # b # ys \<and> ?T < b - a \<and> b - a < 150"
    then obtain gs1 g1 g2 gs2 where G: "?G = gs1 @ (g1 @ [a]) # (b # g2) # gs2"
      using trigger_groups_split [of ?T b a xs ys] by auto
    from h have "sorted ?ts" by blast
    then have srt: "sorted (concat ?G)" by (simp add: concat_trigger_groups)
    have "sorted (g1 @ [a])" using sorted_concat_member [OF srt, of "g1 @ [a]"] G by simp
    then have lo: "hd (g1 @ [a]) \<le> a" by (rule sorted_hd_le_last)
    have "sorted (b # g2)" using sorted_concat_member [OF srt, of "b # g2"] G by simp
    then have hi: "b \<le> last (b # g2)" by (rule sorted_le_last)
    have ab: "60 < b - a" using h by (simp add: default_operator_signal_timeout_def)
    have W: "identify_exchange_windows ?T es
        = Inr (map window_of_group gs1 @ (hd (g1 @ [a]) - 30, a + 120)
                 # (b - 30, last (b # g2) + 120) # map window_of_group gs2)"
      using identify_exchange_windows_groups [of ?T es] G by (simp add: window_of_group_def)
    have ov: "b - 30 < a + 120" using h by simp
    have mem: "\<forall>t. b - 30 \<le> t \<and> t \<le> a + 120 \<longrightarrow>
               in_window (hd (g1 @ [a]) - 30, a + 120) t
               \<and> in_window (b - 30, last (b # g2) + 120) t"
      using lo hi ab by (auto simp add: in_window_def)
    from W ov mem show "\<exists>ws1 s e ws2.
          identify_exchange_windows ?T es = Inr (ws1 @ (s, a + 120) # (b - 30, e) # ws2)
        \<and> b - 30 < a + 120
        \<and> (\<forall>t. b - 30 \<le> t \<and> t \<le> a + 120 \<longrightarrow>
               in_window (s, a + 120) t \<and> in_window (b - 30, e) t)"
      by blast
  qed
  have dashboard: "map ev_timestamp (filter is_ACTIVE ps) = xs' @ a' # b' # ys'
      \<and> 0 \<le> b' - a' \<and> b' - a' < 30 \<longrightarrow>
      (\<exists>ws1 ws2.
          dashboard_identify_exchange_windows ps
            = ws1 @ (a' - 10, a' + 20) # (b' - 10, b' + 20) # ws2)
        \<and> b' - 10 < a' + 20
        \<and> (\<forall>t. b' - 10 \<le> t \<and> t \<le> a' + 20 \<longrightarrow>
               in_window (a' - 10, a' + 20) t \<and> in_window (b' - 10, b' + 20) t)"
  proof
    assume h: "map ev_timestamp (filter is_ACTIVE ps) = xs' @ a' # b' # ys'
      \<and> 0 \<le> b' - a' \<and> b' - a' < 30"
    have "dashboard_identify_exchange_windows ps
        = map (\<lambda>t. (t - 10, t + 20)) xs' @ (a' - 10, a' + 20) # (b' - 10, b' + 20)
            # map (\<lambda>t. (t - 10, t + 20)) ys'"
      using h by (simp add: dashboard_windows_map)
    then have ex: "\<exists>ws1 ws2. dashboard_identify_exchange_windows ps
            = ws1 @ (a' - 10, a' + 20) # (b' - 10, b' + 20) # ws2"
      by blast
    have "\<forall>t. b' - 10 \<le> t \<and> t \<le> a' + 20 \<longrightarrow>
               in_window (a' - 10, a' + 20) t \<and> in_window (b' - 10, b' + 20) t"
      using h by (auto simp add: in_window_def)
    then show "(\<exists>ws1 ws2.
          dashboard_identify_exchange_windows ps
            = ws1 @ (a' - 10, a' + 20) # (b' - 10, b' + 20) # ws2)
        \<and> b' - 10 < a' + 20
        \<and> (\<forall>t. b' - 10 \<le> t \<and> t \<le> a' + 20 \<longrightarrow>
               in_window (a' - 10, a' + 20) t \<and> in_window (b' - 10, b' + 20) t)"
      using ex h by simp
  qed
  from archived dashboard show ?thesis by blast
qed

theorem exchange_windows_overlap_witness:
  "identify_exchange_windows default_operator_signal_timeout [press 0, press 100]
     = Inr [(-30, 120), (70, 220)]
   \<and> in_window (-30, 120) 100 \<and> in_window (70, 220) 100
   \<and> dashboard_identify_exchange_windows [press 0, press 15] = [(-10, 20), (5, 35)]
   \<and> in_window (-10, 20) 15 \<and> in_window (5, 35) 15"
  using exchange_windows_overlap
          [of "[press 0, press 100]" "[]" 0 100 "[]" "[press 0, press 15]" "[]" 0 15 "[]"]
  by (simp add: trigger_times_def is_active_operator_signal_def is_ACTIVE_def press_def
        default_operator_signal_timeout_def in_window_def identify_exchange_windows_def
        scan_event_def close_final_window_def Let_def)

end
